theory Spec2Isabelle
  imports Complex_Main
begin

section \<open>WordSurf: curve function, platform geometry, level layout and player physics\<close>

text \<open>
  A shallow embedding of the WordSurf sources: \<^verbatim>\<open>Utils\<close> (utils.js),
  \<^verbatim>\<open>GeometryGenerator\<close> (geometry-generator.js), \<^verbatim>\<open>CONFIG\<close> and
  \<^verbatim>\<open>Player\<close>. JavaScript numbers are modelled as real numbers, so every statement
  below is about the exact arithmetic of the formulas, not about IEEE rounding.
\<close>

subsection \<open>CONFIG\<close>

definition playerSpeed :: real where "playerSpeed = 5"
definition jumpForce :: real where "jumpForce = 8"
definition gravity :: real where "gravity = 1/2"
definition platformWidth :: real where "platformWidth = 2"
definition minPlatformHeight :: real where "minPlatformHeight = 1/2"
definition maxCurviness :: real where "maxCurviness = 10"
definition scorePerWord :: int where "scorePerWord = 10"
definition bonusMultiplier :: int where "bonusMultiplier = 2"
definition minSentenceLength :: nat where "minSentenceLength = 3"
definition defaultCurviness :: real where "defaultCurviness = 5"

subsection \<open>Utils\<close>

text \<open>
  The class \<^verbatim>\<open>\s\<close> of a JavaScript regular expression, which is also what
  \<^verbatim>\<open>String.prototype.trim\<close> strips, restricted to the code units 0..255 that a
  \<^typ>\<open>char\<close> can hold: TAB, LF, VT, FF, CR, SPACE and NBSP.
\<close>

definition is_space :: "char \<Rightarrow> bool" where
  "is_space c = (of_char c \<in> {9, 10, 11, 12, 13, 32, 160 :: nat})"

definition trim :: "string \<Rightarrow> string" where
  "trim s = rev (dropWhile is_space (rev (dropWhile is_space s)))"

text \<open>
  \<^verbatim>\<open>s.split(/\s+/)\<close>: the pieces between maximal runs of white space. A leading or
  trailing run leaves an empty first or last piece, and the empty string gives one empty
  piece. The first argument is the piece being read, reversed.
\<close>

function split_ws_from :: "string \<Rightarrow> string \<Rightarrow> string list" where
  "split_ws_from acc [] = [rev acc]"
| "split_ws_from acc (c # cs) =
     (if is_space c then rev acc # split_ws_from [] (dropWhile is_space cs)
      else split_ws_from (c # acc) cs)"
  by pat_completeness auto
termination
  by (relation "measure (\<lambda>(acc, s). length s)")
     (auto simp: length_dropWhile_le intro: le_imp_less_Suc)

definition split_ws :: "string \<Rightarrow> string list" where
  "split_ws s = split_ws_from [] s"

text \<open>
  \<^verbatim>\<open>Utils.countWords\<close>: 0 for a falsy text (the empty string; \<^verbatim>\<open>undefined\<close> and
  \<^verbatim>\<open>null\<close> take the same branch), else the number of pieces of the trimmed text.
\<close>

definition countWords :: "string \<Rightarrow> nat" where
  "countWords text = (if text = [] then 0 else length (split_ws (trim text)))"

text \<open>\<^verbatim>\<open>Utils.generateCurve(x, length, curviness)\<close>, statement by statement.\<close>

definition generateCurve :: "real \<Rightarrow> real \<Rightarrow> real \<Rightarrow> real" where
  "generateCurve x len curviness =
     (let normalizedCurviness = curviness / maxCurviness;
          amplitude = normalizedCurviness * 5;
          frequency = 1 + normalizedCurviness * 2;
          sineWave = amplitude * sin ((2 * pi * frequency * x) / len);
          angle = - 35 * (pi / 180);
          rotatedY = sineWave * cos angle - x * sin angle;
          globalDownwardSlope = - (1/2) * (x / len)
      in rotatedY + globalDownwardSlope)"

text \<open>
  The reference formula of the specification (section 4.1, steps 1 to 6), written from
  the specification's words, to be compared with \<^const>\<open>generateCurve\<close>.
\<close>

definition curveHeight_spec :: "real \<Rightarrow> real \<Rightarrow> real \<Rightarrow> real" where
  "curveHeight_spec x len curviness =
     (let n = curviness / 10;
          amplitude = 5 * n;
          frequency = 1 + 2 * n;
          waveform = amplitude * sin (2 * pi * frequency * x / len);
          \<theta> = - 35 * (pi / 180)
      in waveform * cos \<theta> - x * sin \<theta> + (- (1/2) * (x / len)))"

subsection \<open>GeometryGenerator: meshes and the geometry cache\<close>

text \<open>
  A sentence object of the content pipeline: \<^verbatim>\<open>id\<close>, \<^verbatim>\<open>text\<close>, \<^verbatim>\<open>length\<close> (a word
  count supplied upstream) and \<^verbatim>\<open>curviness\<close>; \<open>None\<close> is an absent property.
\<close>

record sentence =
  s_id :: "string option"
  s_text :: string
  s_length :: "real option"
  s_curviness :: "real option"

text \<open>
  The arrow function stored in \<^verbatim>\<open>mesh.userData.curveFunction\<close>, as its captured
  variables \<^verbatim>\<open>length\<close> and \<^verbatim>\<open>curviness\<close>; \<open>call_closure\<close> is its body.
\<close>

datatype closure = CurveFunction real real

fun call_closure :: "closure \<Rightarrow> real \<Rightarrow> real" where
  "call_closure (CurveFunction len curviness) x =
     (let curveX = x + len / 2 in generateCurve curveX len curviness)"

text \<open>
  A mesh: the (x, y) vertices as the code computes them and hands them to the geometry
  (the contour of the platform shape moved by \<^verbatim>\<open>geometry.translate\<close>, or the ribbon
  vertices of the text, whose constant z is left out), \<^verbatim>\<open>position.y\<close>, and the two
  \<^verbatim>\<open>userData\<close> properties; \<open>False\<close> and \<open>None\<close> are absent properties. The
  geometry stores its vertices as 32-bit floats, so the stored coordinates are roundings of
  the ones listed here and no statement below is about them. Materials, UV and index
  buffers are not modelled.
\<close>

record mesh =
  vertices :: "(real \<times> real) list"
  mesh_y :: real
  isCollidable :: bool
  curveFunction :: "closure option"

text \<open>
  \<^verbatim>\<open>curviness.toFixed(1)\<close>: the sign and the number of tenths \<open>n\<close> nearest to the
  value (the larger \<open>n\<close> on a tie), which determine the decimal string; from \<open>10^21\<close> on
  \<^verbatim>\<open>toFixed\<close> returns the plain number-to-string conversion of the number instead.
\<close>

datatype fixed1 = Fixed bool int | Plain real

definition toFixed1 :: "real \<Rightarrow> fixed1" where
  "toFixed1 x =
     (if x < 0
      then (if - x \<ge> 10 ^ 21 then Plain x else Fixed True \<lfloor>- x * 10 + 1/2\<rfloor>)
      else (if x \<ge> 10 ^ 21 then Plain x else Fixed False \<lfloor>x * 10 + 1/2\<rfloor>))"

text \<open>
  The cache key \<^verbatim>\<open>`platform-${length}-${width}-${curviness.toFixed(1)}`\<close> as the
  triple of its three parts, and the cache object as a map from keys to meshes.
\<close>

type_synonym cache_key = "real \<times> real \<times> fixed1"

type_synonym geometryCache = "cache_key \<rightharpoonup> mesh"

text \<open>\<^verbatim>\<open>GeometryGenerator.init\<close> empties the cache.\<close>

definition init_cache :: geometryCache where
  "init_cache = Map.empty"

text \<open>
  \<^verbatim>\<open>createCurvedPlatform\<close> after the cache lookup (the path that builds): the top
  boundary sampled at \<open>segments + 1\<close> points, the bottom boundary
  \<^verbatim>\<open>minPlatformHeight\<close> below it in reverse, the whole moved by \<open>- length / 2\<close>, and
  the collision data. The width only enters the cache key.
\<close>

definition top_points :: "real \<Rightarrow> real \<Rightarrow> (real \<times> real) list" where
  "top_points len curviness =
     (let segments = max 10 \<lfloor>len * 2\<rfloor>
      in map (\<lambda>i. let x = (of_int i / of_int segments) * len
                  in (x, generateCurve x len curviness)) [0..segments])"

definition bottom_points :: "real \<Rightarrow> real \<Rightarrow> (real \<times> real) list" where
  "bottom_points len curviness =
     (let segments = max 10 \<lfloor>len * 2\<rfloor>
      in map (\<lambda>i. let x = (of_int i / of_int segments) * len
                  in (x, generateCurve x len curviness - minPlatformHeight))
           (rev [0..segments]))"

definition translate_x :: "real \<Rightarrow> (real \<times> real) list \<Rightarrow> (real \<times> real) list" where
  "translate_x d ps = map (\<lambda>(x, y). (x + d, y)) ps"

definition build_mesh :: "real \<Rightarrow> real \<Rightarrow> real \<Rightarrow> mesh" where
  "build_mesh len width curviness =
     \<lparr>vertices = translate_x (- len / 2)
                   (top_points len curviness @ bottom_points len curviness),
      mesh_y = 0,
      isCollidable = True,
      curveFunction = Some (CurveFunction len curviness)\<rparr>"

text \<open>
  \<^verbatim>\<open>THREE.Mesh.clone\<close> belongs to the three.js library, so \<^verbatim>\<open>createCurvedPlatform\<close>
  takes it as a parameter \<open>clone\<close>. Two instances are given: a copy that keeps every
  property, and the copy of three.js r132 (the release index.html loads), whose
  \<^verbatim>\<open>Object3D.copy\<close> passes \<^verbatim>\<open>userData\<close> through \<^verbatim>\<open>JSON.stringify\<close> and so drops
  the function-valued property.
\<close>

definition clone_keep :: "mesh \<Rightarrow> mesh" where
  "clone_keep m = m"

definition clone_json :: "mesh \<Rightarrow> mesh" where
  "clone_json m = m\<lparr>curveFunction := None\<rparr>"

definition createCurvedPlatform ::
  "(mesh \<Rightarrow> mesh) \<Rightarrow> geometryCache \<Rightarrow> real \<Rightarrow> real \<Rightarrow> real \<Rightarrow> mesh \<times> geometryCache" where
  "createCurvedPlatform clone cache len width curviness =
     (let cacheKey = (len, width, toFixed1 curviness)
      in case cache cacheKey of
           Some cached \<Rightarrow> (clone cached, cache)
         | None \<Rightarrow>
             (let mesh = build_mesh len width curviness
              in (mesh, cache(cacheKey \<mapsto> clone mesh))))"

text \<open>
  \<^verbatim>\<open>createTextOnPlatform\<close>: per sample a top and a bottom vertex, half the text height
  away from the curve along the normal that the finite-difference tangent gives.
\<close>

definition text_vertex_pair :: "real \<Rightarrow> real \<Rightarrow> int \<Rightarrow> int \<Rightarrow> (real \<times> real) list" where
  "text_vertex_pair platformLength curviness segments i =
     (let textHeight = 8/10;
          x = (of_int i / of_int segments) * platformLength - platformLength / 2;
          normalizedX = (of_int i / of_int segments) * platformLength;
          y = generateCurve normalizedX platformLength curviness;
          delta = 1/100;
          y1 = generateCurve (max 0 (normalizedX - delta)) platformLength curviness;
          y2 = generateCurve (min platformLength (normalizedX + delta)) platformLength curviness;
          tangentX = 2 * delta;
          tangentY = y2 - y1;
          tangentLength = sqrt (tangentX * tangentX + tangentY * tangentY);
          normalizedTangentX = tangentX / tangentLength;
          normalizedTangentY = tangentY / tangentLength;
          normalX = - normalizedTangentY;
          normalY = normalizedTangentX
      in [(x + normalX * textHeight / 2, y + normalY * textHeight / 2),
          (x - normalX * textHeight / 2, y - normalY * textHeight / 2)])"

definition createTextOnPlatform :: "string \<Rightarrow> real \<Rightarrow> real \<Rightarrow> mesh" where
  "createTextOnPlatform text platformLength curviness =
     (let segments = max 20 \<lfloor>platformLength * 3\<rfloor>
      in \<lparr>vertices = concat (map (text_vertex_pair platformLength curviness segments)
                              [0..segments]),
          mesh_y = 0,
          isCollidable = False,
          curveFunction = None\<rparr>)"

subsection \<open>GeometryGenerator: platforms and levels\<close>

text \<open>The name \<^verbatim>\<open>`platform-${sentence.id || index}`\<close>, by what follows the dash.\<close>

datatype platform_name = NameId string | NameIndex nat

text \<open>
  A platform object: name, position, the two child meshes, and \<^verbatim>\<open>userData\<close>
  (\<^verbatim>\<open>sentence\<close>, \<^verbatim>\<open>length\<close>, \<^verbatim>\<open>curviness\<close>, \<^verbatim>\<open>words\<close>).
\<close>

record platform =
  name :: platform_name
  position_x :: real
  position_y :: real
  children :: "mesh list"
  ud_sentence :: sentence
  ud_length :: real
  ud_curviness :: real
  ud_words :: "string list"

definition createPlatform ::
  "(mesh \<Rightarrow> mesh) \<Rightarrow> geometryCache \<Rightarrow> sentence \<Rightarrow> nat \<Rightarrow> platform \<times> geometryCache" where
  "createPlatform clone cache sentence index =
     (let wordCount = (case s_length sentence of
                         Some l \<Rightarrow> if l \<noteq> 0 then l else real (countWords (s_text sentence))
                       | None \<Rightarrow> real (countWords (s_text sentence)));
          platformLength = wordCount * 2;
          curviness = (case s_curviness sentence of
                         Some c \<Rightarrow> c
                       | None \<Rightarrow> defaultCurviness);
          (platformMesh, cache') =
             createCurvedPlatform clone cache platformLength platformWidth curviness;
          textMesh = createTextOnPlatform (s_text sentence) platformLength curviness
      in (\<lparr>name = (case s_id sentence of
                     Some i \<Rightarrow> if i \<noteq> [] then NameId i else NameIndex index
                   | None \<Rightarrow> NameIndex index),
           position_x = 0,
           position_y = 0,
           children = [platformMesh, textMesh\<lparr>mesh_y := 1/10\<rparr>],
           ud_sentence = sentence,
           ud_length = platformLength,
           ud_curviness = curviness,
           ud_words = split_ws (s_text sentence)\<rparr>, cache'))"

text \<open>
  A level object: its children and \<^verbatim>\<open>userData\<close> (\<^verbatim>\<open>totalLength\<close>,
  \<^verbatim>\<open>sentenceCount\<close>).
\<close>

record level =
  platforms :: "platform list"
  totalLength :: real
  sentenceCount :: nat

text \<open>
  The \<^verbatim>\<open>forEach\<close> of \<^verbatim>\<open>createLevel\<close>, from a given cache, \<^verbatim>\<open>nextStartX\<close>,
  \<^verbatim>\<open>currentY\<close> and index: the platforms added from here on, the final
  \<^verbatim>\<open>nextStartX\<close> and the final cache.
\<close>

fun createLevel_loop ::
  "(mesh \<Rightarrow> mesh) \<Rightarrow> geometryCache \<Rightarrow> real \<Rightarrow> real \<Rightarrow> nat \<Rightarrow> sentence list
     \<Rightarrow> platform list \<times> real \<times> geometryCache" where
  "createLevel_loop clone cache nextStartX currentY index [] = ([], nextStartX, cache)"
| "createLevel_loop clone cache nextStartX currentY index (sentence # rest) =
     (if countWords (s_text sentence) < minSentenceLength
      then createLevel_loop clone cache nextStartX currentY (Suc index) rest
      else
        (let globalDownwardSlope = 5;
             (platform, cache') = createPlatform clone cache sentence index;
             platformLength = ud_length platform;
             platformCenterX = nextStartX + (platformLength / 2);
             placed = platform\<lparr>position_x := platformCenterX, position_y := currentY\<rparr>;
             platformEndX = platformCenterX + (platformLength / 2);
             gapBetweenPlatforms = 2;
             (later, finalX, finalCache) =
                createLevel_loop clone cache' (platformEndX + gapBetweenPlatforms)
                  (currentY - globalDownwardSlope) (Suc index) rest
         in (placed # later, finalX, finalCache)))"

definition createLevel ::
  "(mesh \<Rightarrow> mesh) \<Rightarrow> geometryCache \<Rightarrow> sentence list \<Rightarrow> level \<times> geometryCache" where
  "createLevel clone cache sentences =
     (let (built, nextStartX, cache') = createLevel_loop clone cache 0 0 0 sentences
      in (\<lparr>platforms = built,
           totalLength = nextStartX,
           sentenceCount = length sentences\<rparr>, cache'))"

text \<open>
  \<^verbatim>\<open>getPlatformYAtX\<close>: the curve function of the first child, when there is one,
  else 0.
\<close>

definition getPlatformYAtX :: "platform \<Rightarrow> real \<Rightarrow> real" where
  "getPlatformYAtX platform x =
     (case children platform of
        [] \<Rightarrow> 0
      | platformMesh # _ \<Rightarrow>
          (case curveFunction platformMesh of
             Some f \<Rightarrow> call_closure f x
           | None \<Rightarrow> 0))"

text \<open>The sine of 35 degrees, the slope that the rotation term gives the curve.\<close>

definition sin35 :: real where
  "sin35 = sin (35 * (pi / 180))"

subsection \<open>Layout vocabulary and example sentences\<close>

text \<open>The tests of \<^verbatim>\<open>createLevel\<close> and the horizontal extent of a platform.\<close>

definition retained :: "sentence \<Rightarrow> bool" where
  "retained s = (\<not> countWords (s_text s) < minSentenceLength)"

definition left_edge :: "platform \<Rightarrow> real" where
  "left_edge p = position_x p - ud_length p / 2"

definition right_edge :: "platform \<Rightarrow> real" where
  "right_edge p = position_x p + ud_length p / 2"

text \<open>A platform with its name blanked: everything but the name.\<close>

definition unnamed :: "platform \<Rightarrow> platform" where
  "unnamed p = p\<lparr>name := NameIndex 0\<rparr>"

definition calm :: sentence where
  "calm = \<lparr>s_id = Some ''s0'', s_text = ''a b c'', s_length = None,
            s_curviness = Some 0\<rparr>"

definition nearly_calm :: sentence where
  "nearly_calm = \<lparr>s_id = Some ''s1'', s_text = ''d e f'', s_length = None,
                   s_curviness = Some (1/25)\<rparr>"

definition calm_again :: sentence where
  "calm_again = \<lparr>s_id = Some ''s1'', s_text = ''a b c'', s_length = None,
                  s_curviness = Some 0\<rparr>"

definition calm_four :: sentence where
  "calm_four = \<lparr>s_id = Some ''s1'', s_text = ''d e f g'', s_length = None,
                 s_curviness = Some 0\<rparr>"

subsection \<open>Player\<close>

text \<open>The input flags read once per tick, and \<^verbatim>\<open>Player.state\<close>.\<close>

record input =
  in_left :: bool
  in_right :: bool
  in_up :: bool
  in_down :: bool
  in_jump :: bool

record player_state =
  pos_x :: real
  pos_y :: real
  pos_z :: real
  vel_x :: real
  vel_y :: real
  vel_z :: real
  isJumping :: bool
  isGrounded :: bool
  currentPlatform :: "platform option"
  currentWordIndex :: int
  score :: int
  perfectSurfs :: nat

text \<open>
  What a tick does besides changing the state: the sentence handed to
  \<^verbatim>\<open>AudioManager.playSentence\<close>, the index \<open>i\<close> of the word scored and handed (as
  \<^verbatim>\<open>words[i]\<close>) to \<^verbatim>\<open>AudioManager.playWord\<close>, and the call of
  \<^verbatim>\<open>awardPerfectSurf\<close>.
\<close>

datatype event = PlaySentence sentence | WordSurfed int | PerfectSurf

definition resetState :: player_state where
  "resetState =
     \<lparr>pos_x = 0, pos_y = 0, pos_z = 0, vel_x = 0, vel_y = 0, vel_z = 0,
      isJumping = False, isGrounded = False, currentPlatform = None,
      currentWordIndex = 0, score = 0, perfectSurfs = 0\<rparr>"

definition processInput :: "input \<Rightarrow> player_state \<Rightarrow> player_state" where
  "processInput inp s =
     (let s1 = (if in_left inp
                then s\<lparr>vel_x := max (vel_x s - 1/2) (- playerSpeed)\<rparr>
                else if in_right inp
                then s\<lparr>vel_x := min (vel_x s + 1/2) playerSpeed\<rparr>
                else s\<lparr>vel_x := vel_x s * (9/10)\<rparr>)
      in if in_jump inp \<and> isGrounded s1 \<and> \<not> isJumping s1
         then s1\<lparr>vel_y := jumpForce, isJumping := True, isGrounded := False\<rparr>
         else s1)"

definition applyPhysics :: "real \<Rightarrow> player_state \<Rightarrow> player_state" where
  "applyPhysics deltaTime s =
     (let s1 = s\<lparr>vel_y := vel_y s - gravity\<rparr>;
          s2 = s1\<lparr>pos_x := pos_x s1 + vel_x s1 * deltaTime\<rparr>;
          s3 = s2\<lparr>pos_y := pos_y s2 + vel_y s2 * deltaTime\<rparr>
      in s3\<lparr>vel_y := max (vel_y s3) (- 20)\<rparr>)"

text \<open>
  One round of the \<^verbatim>\<open>forEach\<close> of \<^verbatim>\<open>checkPlatformCollisions\<close>. The two locals
  \<^verbatim>\<open>currentPlatform\<close> and \<^verbatim>\<open>platformY\<close> are assigned together, so they are one
  optional pair; \<open>None\<close> is their initial \<^verbatim>\<open>null\<close> and \<^verbatim>\<open>-Infinity\<close>.
\<close>

definition select_step ::
  "real \<Rightarrow> real \<Rightarrow> real \<Rightarrow> (platform \<times> real) option \<Rightarrow> platform
     \<Rightarrow> (platform \<times> real) option" where
  "select_step playerX playerY playerRadius best platform =
     (if ud_length platform = 0 then best
      else
        (let platformLength = ud_length platform;
             platformLeft = position_x platform - platformLength / 2;
             platformRight = position_x platform + platformLength / 2
         in if playerX \<ge> platformLeft \<and> playerX \<le> platformRight
            then
              (let relativeX = playerX - position_x platform;
                   platformHeightAtX = getPlatformYAtX platform relativeX;
                   absolutePlatformY = position_y platform + platformHeightAtX
               in if (case best of
                        None \<Rightarrow> True
                      | Some (_, platformY) \<Rightarrow> absolutePlatformY > platformY)
                     \<and> absolutePlatformY \<le> playerY + playerRadius
                  then Some (platform, absolutePlatformY)
                  else best)
            else best))"

definition find_platform ::
  "level \<Rightarrow> real \<Rightarrow> real \<Rightarrow> (platform \<times> real) option" where
  "find_platform lvl playerX playerY =
     foldl (select_step playerX playerY (1/2)) None (platforms lvl)"

definition onPlatformChange :: "platform \<Rightarrow> player_state \<Rightarrow> player_state \<times> event list" where
  "onPlatformChange newPlatform s =
     (s\<lparr>currentWordIndex := 0\<rparr>, [PlaySentence (ud_sentence newPlatform)])"

definition checkPlatformCollisions ::
  "level option \<Rightarrow> player_state \<Rightarrow> player_state \<times> event list" where
  "checkPlatformCollisions level s =
     (case level of
        None \<Rightarrow> (s, [])
      | Some lvl \<Rightarrow>
          (let playerX = pos_x s;
               playerY = pos_y s;
               playerRadius = 1/2;
               isFalling = (vel_y s < 0);
               s1 = (if isFalling then s\<lparr>isGrounded := False\<rparr> else s)
           in case find_platform lvl playerX playerY of
                Some (found, platformY) \<Rightarrow>
                  (if isFalling
                   then
                     (let distanceToGround = playerY - platformY
                      in if distanceToGround \<le> playerRadius
                         then
                           (let s2 = s1\<lparr>pos_y := platformY + playerRadius, vel_y := 0,
                                       isGrounded := True, isJumping := False\<rparr>;
                                (s3, ev) = (if currentPlatform s2 \<noteq> Some found
                                            then onPlatformChange found s2
                                            else (s2, []))
                            in (s3\<lparr>currentPlatform := Some found\<rparr>, ev))
                         else (s1, []))
                   else (s1, []))
              | None \<Rightarrow>
                  (if isGrounded s1
                   then (s1\<lparr>isGrounded := False, currentPlatform := None\<rparr>, [])
                   else (s1, []))))"

text \<open>The two locals of \<^verbatim>\<open>checkWordSurfing\<close> that the scoring tests read.\<close>

definition relativePos :: "platform \<Rightarrow> real \<Rightarrow> real" where
  "relativePos platform playerX =
     (let platformLength = ud_length platform;
          platformLeft = position_x platform - platformLength / 2
      in (playerX - platformLeft) / platformLength)"

definition wordIndex :: "platform \<Rightarrow> real \<Rightarrow> int" where
  "wordIndex platform playerX =
     min \<lfloor>relativePos platform playerX * of_nat (length (ud_words platform))\<rfloor>
         (int (length (ud_words platform)) - 1)"

definition awardPerfectSurf :: "player_state \<Rightarrow> player_state" where
  "awardPerfectSurf s =
     (let bonus = scorePerWord * bonusMultiplier
      in s\<lparr>score := score s + bonus, perfectSurfs := perfectSurfs s + 1\<rparr>)"

definition checkWordSurfing :: "player_state \<Rightarrow> player_state \<times> event list" where
  "checkWordSurfing s =
     (case currentPlatform s of
        None \<Rightarrow> (s, [])
      | Some platform \<Rightarrow>
          (let wordCount = int (length (ud_words platform));
               playerX = pos_x s;
               (s1, ev1) = (if wordIndex platform playerX > currentWordIndex s
                            then (s\<lparr>score := score s + scorePerWord,
                                    currentWordIndex := wordIndex platform playerX\<rparr>,
                                  [WordSurfed (wordIndex platform playerX)])
                            else (s, []))
           in if wordIndex platform playerX = wordCount - 1
                 \<and> relativePos platform playerX \<ge> 95/100
              then (if currentWordIndex s1 = wordCount - 1
                    then ((awardPerfectSurf s1)\<lparr>currentWordIndex := wordCount\<rparr>,
                          ev1 @ [PerfectSurf])
                    else (s1, ev1))
              else (s1, ev1)))"

text \<open>
  \<^verbatim>\<open>Player.update\<close>; \<^verbatim>\<open>updatePosition\<close> only moves the scene object and is left
  out.
\<close>

definition update ::
  "input \<Rightarrow> real \<Rightarrow> level option \<Rightarrow> player_state \<Rightarrow> player_state \<times> event list" where
  "update inp deltaTime level s =
     (let s1 = processInput inp s;
          s2 = applyPhysics deltaTime s1;
          (s3, ev3) = checkPlatformCollisions level s2;
          (s4, ev4) = checkWordSurfing s3
      in (s4, ev3 @ ev4))"

subsection \<open>Game: start position and frame loop\<close>





text \<open>The word indices scored during a run, in order.\<close>

fun surfed :: "event list \<Rightarrow> int list" where
  "surfed [] = []"
| "surfed (WordSurfed i # ev) = i # surfed ev"
| "surfed (_ # ev) = surfed ev"


subsection \<open>Example level and player states\<close>

text \<open>
  The two platforms of the level built from a three-word and a four-word sentence of
  curviness 0, and a falling and a rising player above the left edge of the first.
\<close>

definition platA :: platform where
  "platA = \<lparr>name = NameId ''s0'', position_x = 3, position_y = 0,
             children = [build_mesh 6 2 0,
                         (createTextOnPlatform ''a b c'' 6 0)\<lparr>mesh_y := 1/10\<rparr>],
             ud_sentence = calm, ud_length = 6, ud_curviness = 0,
             ud_words = [''a'', ''b'', ''c'']\<rparr>"

definition platB :: platform where
  "platB = \<lparr>name = NameId ''s1'', position_x = 12, position_y = - 5,
             children = [build_mesh 8 2 0,
                         (createTextOnPlatform ''d e f g'' 8 0)\<lparr>mesh_y := 1/10\<rparr>],
             ud_sentence = calm_four, ud_length = 8, ud_curviness = 0,
             ud_words = [''d'', ''e'', ''f'', ''g'']\<rparr>"

definition two_platform_level :: level where
  "two_platform_level = fst (createLevel clone_json init_cache [calm, calm_four])"

definition falling_state :: player_state where
  "falling_state = resetState\<lparr>pos_y := 1/5, vel_y := - 1, isJumping := True\<rparr>"

definition rising_state :: player_state where
  "rising_state = resetState\<lparr>pos_y := 1/5, vel_y := 3, isJumping := True\<rparr>"

text \<open>A player state by its fields (z stays 0), a player surfing the first platform,
  and two input vectors.\<close>

definition player ::
  "real \<Rightarrow> real \<Rightarrow> real \<Rightarrow> real \<Rightarrow> bool \<Rightarrow> bool \<Rightarrow> platform option \<Rightarrow> int \<Rightarrow> int \<Rightarrow> nat
     \<Rightarrow> player_state" where
  "player x y vx vy jumping grounded platform wordIdx points surfs =
     \<lparr>pos_x = x, pos_y = y, pos_z = 0, vel_x = vx, vel_y = vy, vel_z = 0,
      isJumping = jumping, isGrounded = grounded, currentPlatform = platform,
      currentWordIndex = wordIdx, score = points, perfectSurfs = surfs\<rparr>"

definition surfing_state :: player_state where
  "surfing_state = player (19/10) (3/2) 5 0 False True (Some platA) 0 0 0"

definition jump_right :: input where
  "jump_right = \<lparr>in_left = False, in_right = True, in_up = False, in_down = False,
                 in_jump = True\<rparr>"


text \<open>
  No key held; the heights of the two example platforms at world x (curviness 0, so
  straight lines); and a player in the air over the first platform.
\<close>

definition no_input :: input where
  "no_input = \<lparr>in_left = False, in_right = False, in_up = False, in_down = False,
               in_jump = False\<rparr>"

definition surface_A :: "real \<Rightarrow> real" where
  "surface_A x = x * sin35 - x / 12"

definition surface_B :: "real \<Rightarrow> real" where
  "surface_B x = - 5 + ((x - 8) * sin35 - (x - 8) / 16)"

definition airborne_state :: player_state where
  "airborne_state = player (12/5) (9/4) 5 (15/2) True False (Some platA) 0 0 0"







subsection \<open>Facts about the curve function\<close>

lemma sin35_gt_half: "1/2 < sin35"
proof -
  have "sin (pi / 6) < sin (35 * (pi / 180))"
    by (rule sin_monotone_2pi) (use pi_gt_zero in auto)
  then show ?thesis
    by (simp add: sin35_def sin_30)
qed


lemma generateCurve_flat:
  "generateCurve x len 0 = x * sin35 - (1/2) * (x / len)"
  by (simp add: generateCurve_def Let_def maxCurviness_def sin35_def)

lemma generateCurve_at_0: "generateCurve 0 len curviness = 0"
  by (simp add: generateCurve_def Let_def)

text \<open>
  C2. For every \<open>x\<close> in \<open>[0, length]\<close>, \<open>length > 0\<close> and curviness in \<open>[0, 10]\<close>,
  \<^verbatim>\<open>generateCurve\<close> equals the reference formula of the specification: amplitude
  \<open>5 n\<close>, frequency \<open>1 + 2 n\<close> with \<open>n = curviness / 10\<close>, the waveform rotated by
  -35 degrees, plus the bias \<open>- 0.5 (x / length)\<close>.
\<close>

theorem generateCurve_refines_spec:
  assumes "0 \<le> x" and "x \<le> len" and "0 < len"
    and "0 \<le> curviness" and "curviness \<le> 10"
  shows "generateCurve x len curviness = curveHeight_spec x len curviness"
  by (simp add: generateCurve_def curveHeight_spec_def Let_def maxCurviness_def
      mult.commute)

theorem generateCurve_refines_spec_witness:
  "(0::real) \<le> 3 \<and> (3::real) \<le> 6 \<and> (0::real) < 6 \<and> (0::real) \<le> 5 \<and> (5::real) \<le> 10
   \<and> generateCurve 3 6 5 = curveHeight_spec 3 6 5"
  using generateCurve_refines_spec [of 3 6 5] by simp

text \<open>
  C3. With curviness 0 the curve is the rotation of the zero waveform plus the bias, a
  straight line in \<open>x\<close>; the claim calls it descending. On the code the line through
  the platform of three words (length 6) starts at height 0 and ends above 5/2: its slope
  is \<open>sin 35\<degree> - 1 / (2 length)\<close>, which is positive for every platform the level
  builder can produce. The rotation term is subtracted where the comment above it in the
  source adds it.
\<close>

theorem generateCurve_flat_rises:
  "generateCurve 0 6 0 = 0 \<and> 5/2 < generateCurve 6 6 0"
  using sin35_gt_half by (simp add: generateCurve_flat)

subsection \<open>Facts about levels and the geometry cache\<close>

lemma createLevel_loop_chain:
  "createLevel_loop clone cache X Y i ss = (ps, Xf, cf) \<Longrightarrow>
     successively (\<lambda>p q. left_edge q = right_edge p + 2 \<and> position_y q = position_y p - 5) ps
     \<and> (ps \<noteq> [] \<longrightarrow> left_edge (hd ps) = X \<and> position_y (hd ps) = Y)"
proof (induction ss arbitrary: cache X Y i ps Xf cf)
  case Nil
  then show ?case by simp
next
  case (Cons s ss)
  show ?case
  proof (cases "countWords (s_text s) < minSentenceLength")
    case True
    with Cons show ?thesis by simp
  next
    case False
    obtain p c' where pc: "createPlatform clone cache s i = (p, c')" by force
    obtain later Xl cl where rec: "createLevel_loop clone c' (X + ud_length p / 2 + ud_length p / 2 + 2) (Y - 5) (Suc i) ss = (later, Xl, cl)"
      by (metis prod_cases3)
    from Cons.prems False pc rec
    have ps: "ps = p\<lparr>position_x := X + ud_length p / 2, position_y := Y\<rparr> # later"
      by (simp add: Let_def)
    from Cons.IH [OF rec] show ?thesis
      unfolding ps by (auto simp: successively_Cons left_edge_def right_edge_def)
  qed
qed

lemma successively_nth:
  "successively P xs \<Longrightarrow> Suc i < length xs \<Longrightarrow> P (xs ! i) (xs ! Suc i)"
proof (induction xs arbitrary: i)
  case Nil
  then show ?case by simp
next
  case (Cons x xs)
  then show ?case
    by (cases i; cases xs) (auto simp: successively_Cons)
qed

text \<open>
  C4. For every sentence list, consecutive platforms of the level that \<^verbatim>\<open>createLevel\<close>
  builds are laid out left to right: the left edge of platform \<open>i + 1\<close> is the right
  edge of platform \<open>i\<close> plus the gap 2, so the two never overlap, and platform \<open>i + 1\<close>
  lies 5 lower than platform \<open>i\<close>, whatever the curviness.
\<close>

theorem createLevel_layout:
  assumes "Suc i < length (platforms (fst (createLevel clone cache sentences)))"
  shows "position_x (platforms (fst (createLevel clone cache sentences)) ! Suc i)
           - ud_length (platforms (fst (createLevel clone cache sentences)) ! Suc i) / 2
         = position_x (platforms (fst (createLevel clone cache sentences)) ! i)
           + ud_length (platforms (fst (createLevel clone cache sentences)) ! i) / 2 + 2
       \<and> position_x (platforms (fst (createLevel clone cache sentences)) ! i)
           + ud_length (platforms (fst (createLevel clone cache sentences)) ! i) / 2
         < position_x (platforms (fst (createLevel clone cache sentences)) ! Suc i)
           - ud_length (platforms (fst (createLevel clone cache sentences)) ! Suc i) / 2
       \<and> position_y (platforms (fst (createLevel clone cache sentences)) ! Suc i)
         = position_y (platforms (fst (createLevel clone cache sentences)) ! i) - 5"
proof -
  obtain ps Xf cf where loop: "createLevel_loop clone cache 0 0 0 sentences = (ps, Xf, cf)"
    by (metis prod_cases3)
  then have ps: "platforms (fst (createLevel clone cache sentences)) = ps"
    by (simp add: createLevel_def)
  from createLevel_loop_chain [OF loop] assms
  have "left_edge (ps ! Suc i) = right_edge (ps ! i) + 2
        \<and> position_y (ps ! Suc i) = position_y (ps ! i) - 5"
    unfolding ps by (blast dest: successively_nth)
  then show ?thesis
    unfolding ps by (simp add: left_edge_def right_edge_def)
qed

lemma createPlatform_index:
  "unnamed (fst (createPlatform clone cache s i)) = unnamed (fst (createPlatform clone cache s j))"
  "snd (createPlatform clone cache s i) = snd (createPlatform clone cache s j)"
  "ud_length (fst (createPlatform clone cache s i)) = ud_length (fst (createPlatform clone cache s j))"
  by (simp_all add: createPlatform_def Let_def unnamed_def split: prod.splits)

lemma createPlatform_sentence:
  "ud_sentence (fst (createPlatform clone cache s i)) = s"
  by (simp add: createPlatform_def Let_def split: prod.splits)

lemma createLevel_loop_sentences:
  "createLevel_loop clone cache X Y i ss = (ps, Xf, cf) \<Longrightarrow>
     map ud_sentence ps = filter retained ss"
proof (induction ss arbitrary: cache X Y i ps Xf cf)
  case Nil
  then show ?case by simp
next
  case (Cons s ss)
  show ?case
  proof (cases "retained s")
    case False
    with Cons show ?thesis by (simp add: retained_def)
  next
    case True
    obtain p c' where pc: "createPlatform clone cache s i = (p, c')" by force
    obtain later Xl cl where rec: "createLevel_loop clone c' (X + ud_length p / 2 + ud_length p / 2 + 2) (Y - 5) (Suc i) ss = (later, Xl, cl)"
      by (metis prod_cases3)
    from Cons.prems True pc rec
    have ps: "ps = p\<lparr>position_x := X + ud_length p / 2, position_y := Y\<rparr> # later"
      by (simp add: Let_def retained_def)
    from createPlatform_sentence [of clone cache s i] pc have "ud_sentence p = s" by simp
    with Cons.IH [OF rec] True show ?thesis
      unfolding ps by simp
  qed
qed

lemma unnamed_placed:
  assumes "unnamed p = unnamed q"
  shows "unnamed (p\<lparr>position_x := a, position_y := b\<rparr>)
       = unnamed (q\<lparr>position_x := a, position_y := b\<rparr>)"
  using assms by (cases p, cases q) (simp add: unnamed_def)

lemma createLevel_loop_filter:
  "createLevel_loop clone cache X Y i ss = (ps, Xf, cf) \<Longrightarrow>
   createLevel_loop clone cache X Y j (filter retained ss) = (ps', Xf', cf') \<Longrightarrow>
     map unnamed ps = map unnamed ps' \<and> Xf = Xf' \<and> cf = cf'"
proof (induction ss arbitrary: cache X Y i j ps Xf cf ps' Xf' cf')
  case Nil
  then show ?case by simp
next
  case (Cons s ss)
  show ?case
  proof (cases "retained s")
    case False
    then have lt: "countWords (s_text s) < minSentenceLength"
      by (simp add: retained_def)
    with Cons.prems False have
      "createLevel_loop clone cache X Y (Suc i) ss = (ps, Xf, cf)"
      "createLevel_loop clone cache X Y j (filter retained ss) = (ps', Xf', cf')"
      by simp_all
    then show ?thesis by (rule Cons.IH)
  next
    case True
    obtain p c' where pc: "createPlatform clone cache s i = (p, c')" by force
    obtain q d' where qd: "createPlatform clone cache s j = (q, d')" by force
    from createPlatform_index [of clone cache s i j] pc qd
    have eq: "unnamed p = unnamed q" "c' = d'" "ud_length p = ud_length q" by simp_all
    obtain later Xl cl where rec: "createLevel_loop clone c' (X + ud_length p / 2 + ud_length p / 2 + 2) (Y - 5) (Suc i) ss = (later, Xl, cl)"
      by (metis prod_cases3)
    obtain later' Xl' cl' where rec': "createLevel_loop clone c' (X + ud_length p / 2 + ud_length p / 2 + 2) (Y - 5) (Suc j) (filter retained ss) = (later', Xl', cl')"
      by (metis prod_cases3)
    from True have keep: "\<not> countWords (s_text s) < minSentenceLength"
      by (simp add: retained_def)
    from Cons.prems(1) keep pc rec
    have ps: "ps = p\<lparr>position_x := X + ud_length p / 2, position_y := Y\<rparr> # later" "Xf = Xl" "cf = cl"
      by (simp_all add: Let_def)
    from Cons.prems(2) True keep qd rec' eq
    have ps': "ps' = q\<lparr>position_x := X + ud_length p / 2, position_y := Y\<rparr> # later'" "Xf' = Xl'" "cf' = cl'"
      by (simp_all add: Let_def)
    from eq(1) have "unnamed (p\<lparr>position_x := X + ud_length p / 2, position_y := Y\<rparr>)
        = unnamed (q\<lparr>position_x := X + ud_length p / 2, position_y := Y\<rparr>)"
      by (rule unnamed_placed)
    with Cons.IH [OF rec rec'] show ?thesis
      unfolding ps ps' by simp
  qed
qed

text \<open>
  C8. For every sentence list, \<^verbatim>\<open>createLevel\<close> builds one platform per sentence of at
  least 3 words, in order, and none for a shorter one; \<^verbatim>\<open>sentenceCount\<close> is the length
  of the whole list, so it exceeds the number of platforms by the number of dropped
  sentences; and dropped sentences leave the layout alone: the platforms (up to their
  names, which may carry the index in the list) and the total length are those of the
  level built from the retained sentences only.
\<close>

theorem createLevel_drops_short_sentences:
  "map ud_sentence (platforms (fst (createLevel clone cache sentences)))
     = filter (\<lambda>s. 3 \<le> countWords (s_text s)) sentences
   \<and> sentenceCount (fst (createLevel clone cache sentences)) = length sentences
   \<and> int (sentenceCount (fst (createLevel clone cache sentences)))
       - int (length (platforms (fst (createLevel clone cache sentences))))
     = int (length (filter (\<lambda>s. countWords (s_text s) < 3) sentences))
   \<and> map unnamed (platforms (fst (createLevel clone cache sentences)))
     = map unnamed (platforms (fst (createLevel clone cache
         (filter (\<lambda>s. 3 \<le> countWords (s_text s)) sentences))))
   \<and> totalLength (fst (createLevel clone cache sentences))
     = totalLength (fst (createLevel clone cache
         (filter (\<lambda>s. 3 \<le> countWords (s_text s)) sentences)))"
proof -
  have ret: "retained = (\<lambda>s. 3 \<le> countWords (s_text s))"
    by (auto simp: retained_def minSentenceLength_def fun_eq_iff)
  have drop: "(\<lambda>s. countWords (s_text s) < 3) = (\<lambda>s. \<not> retained s)"
    by (auto simp: retained_def minSentenceLength_def fun_eq_iff)
  obtain ps Xf cf where loop: "createLevel_loop clone cache 0 0 0 sentences = (ps, Xf, cf)"
    by (metis prod_cases3)
  obtain ps' Xf' cf' where loop':
    "createLevel_loop clone cache 0 0 0 (filter retained sentences) = (ps', Xf', cf')"
    by (metis prod_cases3)
  have sent: "map ud_sentence ps = filter retained sentences"
    using loop by (rule createLevel_loop_sentences)
  then have len: "length ps = length (filter retained sentences)"
    by (metis length_map)
  have same: "map unnamed ps = map unnamed ps' \<and> Xf = Xf' \<and> cf = cf'"
    using loop loop' by (rule createLevel_loop_filter)
  have count: "int (length sentences) - int (length (filter retained sentences))
      = int (length (filter (\<lambda>s. \<not> retained s) sentences))"
    using sum_length_filter_compl [of retained sentences] by simp
  show ?thesis
    using loop loop' sent len same count
    by (simp add: createLevel_def ret [symmetric] drop)
qed

lemma createCurvedPlatform_miss:
  "cache (len, width, toFixed1 curviness) = None \<Longrightarrow>
     createCurvedPlatform clone cache len width curviness
       = (build_mesh len width curviness,
          cache((len, width, toFixed1 curviness) \<mapsto> clone (build_mesh len width curviness)))"
  by (simp add: createCurvedPlatform_def Let_def)

lemma createCurvedPlatform_hit:
  "cache (len, width, toFixed1 curviness) = Some m \<Longrightarrow>
     createCurvedPlatform clone cache len width curviness = (clone m, cache)"
  by (simp add: createCurvedPlatform_def)

text \<open>
  C10. The cache key holds the curviness rounded to one decimal. When two calls of
  \<^verbatim>\<open>createCurvedPlatform\<close> have the same length and width and curviness values with
  the same \<^verbatim>\<open>toFixed(1)\<close>, and the first call builds, the second call returns a clone
  of the cached mesh, which is a clone of the mesh built from the first curviness, and
  leaves the cache as it was; its own curviness appears nowhere in the result.
\<close>

theorem cache_hit_returns_clone_of_first_build:
  assumes "toFixed1 c1 = toFixed1 c2"
    and "cache (len, width, toFixed1 c1) = None"
  shows "createCurvedPlatform clone
           (snd (createCurvedPlatform clone cache len width c1)) len width c2
         = (clone (clone (build_mesh len width c1)),
            snd (createCurvedPlatform clone cache len width c1))"
  using assms by (simp add: createCurvedPlatform_miss createCurvedPlatform_hit)

theorem cache_hit_returns_clone_of_first_build_witness:
  "toFixed1 (496/100) = toFixed1 (504/100)
   \<and> init_cache (6, 2, toFixed1 (496/100)) = None
   \<and> createCurvedPlatform clone_json
        (snd (createCurvedPlatform clone_json init_cache 6 2 (496/100))) 6 2 (504/100)
      = (clone_json (clone_json (build_mesh 6 2 (496/100))),
         snd (createCurvedPlatform clone_json init_cache 6 2 (496/100)))"
proof -
  have a: "toFixed1 (496/100) = toFixed1 (504/100)"
    by (simp add: toFixed1_def)
  have b: "init_cache (6, 2, toFixed1 (496/100)) = None"
    by (simp add: init_cache_def)
  show ?thesis
    using a b
      cache_hit_returns_clone_of_first_build
        [of "496/100" "504/100" init_cache 6 2 clone_json]
    by simp
qed

lemma countWords_examples:
  "countWords ''a b c'' = 3" "countWords ''d e f'' = 3" "countWords ''d e f g'' = 4"
  by (simp_all add: countWords_def trim_def split_ws_def is_space_def)

lemma two_platforms:
  "length (platforms (fst (createLevel clone init_cache [calm, nearly_calm]))) = 2"
  by (simp add: createLevel_def calm_def nearly_calm_def countWords_examples
      minSentenceLength_def createPlatform_def createCurvedPlatform_def toFixed1_def
      init_cache_def platformWidth_def Let_def)

theorem createLevel_layout_witness:
  "Suc 0 < length (platforms (fst (createLevel clone_json init_cache [calm, nearly_calm])))
   \<and> position_x (platforms (fst (createLevel clone_json init_cache [calm, nearly_calm])) ! Suc 0)
         - ud_length (platforms (fst (createLevel clone_json init_cache [calm, nearly_calm])) ! Suc 0) / 2
       = position_x (platforms (fst (createLevel clone_json init_cache [calm, nearly_calm])) ! 0)
         + ud_length (platforms (fst (createLevel clone_json init_cache [calm, nearly_calm])) ! 0) / 2 + 2
   \<and> position_x (platforms (fst (createLevel clone_json init_cache [calm, nearly_calm])) ! 0)
         + ud_length (platforms (fst (createLevel clone_json init_cache [calm, nearly_calm])) ! 0) / 2
       < position_x (platforms (fst (createLevel clone_json init_cache [calm, nearly_calm])) ! Suc 0)
         - ud_length (platforms (fst (createLevel clone_json init_cache [calm, nearly_calm])) ! Suc 0) / 2
   \<and> position_y (platforms (fst (createLevel clone_json init_cache [calm, nearly_calm])) ! Suc 0)
       = position_y (platforms (fst (createLevel clone_json init_cache [calm, nearly_calm])) ! 0) - 5"
proof -
  have h: "Suc 0 < length (platforms (fst (createLevel clone_json init_cache [calm, nearly_calm])))"
    by (simp add: two_platforms)
  show ?thesis
    using h createLevel_layout [OF h] by blast
qed

lemma repeated_key_platforms:
  "platforms (fst (createLevel clone_json init_cache [calm, calm_again]))
     = [\<lparr>name = NameId ''s0'', position_x = 3, position_y = 0,
         children = [build_mesh 6 2 0,
                     (createTextOnPlatform ''a b c'' 6 0)\<lparr>mesh_y := 1/10\<rparr>],
         ud_sentence = calm, ud_length = 6, ud_curviness = 0,
         ud_words = split_ws ''a b c''\<rparr>,
        \<lparr>name = NameId ''s1'', position_x = 11, position_y = - 5,
         children = [clone_json (clone_json (build_mesh 6 2 0)),
                     (createTextOnPlatform ''a b c'' 6 0)\<lparr>mesh_y := 1/10\<rparr>],
         ud_sentence = calm_again, ud_length = 6, ud_curviness = 0,
         ud_words = split_ws ''a b c''\<rparr>]"
  by (simp add: createLevel_def calm_def calm_again_def countWords_examples
      minSentenceLength_def createPlatform_def createCurvedPlatform_def toFixed1_def
      init_cache_def platformWidth_def Let_def)

text \<open>
  C1. The claim: the height query of every platform mesh that
  \<^verbatim>\<open>createCurvedPlatform(length, width, curviness)\<close> returns is
  \<open>generateCurve (x + length / 2) length curviness\<close>. The code does so for the mesh it
  builds and misses it for the mesh it serves from the cache. In the level of two
  three-word sentences of curviness 0, built with the clone of three.js r132, the first
  platform answers the query at \<open>x = 3\<close> with the curve, which is above 5/2 there; the
  second platform, of the same length 6 and curviness 0, gets the clone of the cached
  clone, which has lost \<^verbatim>\<open>userData.curveFunction\<close>, and answers 0.
\<close>

theorem cache_hit_height_query_falls_back:
  "ud_length (platforms (fst (createLevel clone_json init_cache [calm, calm_again])) ! 1) = 6
   \<and> ud_curviness (platforms (fst (createLevel clone_json init_cache [calm, calm_again])) ! 1) = 0
   \<and> getPlatformYAtX (platforms (fst (createLevel clone_json init_cache [calm, calm_again])) ! 0) 3
       = generateCurve (3 + 6 / 2) 6 0
   \<and> getPlatformYAtX (platforms (fst (createLevel clone_json init_cache [calm, calm_again])) ! 1) 3
       = 0
   \<and> 5/2 < generateCurve (3 + 6 / 2) 6 0"
proof -
  have rises: "5/2 < generateCurve (3 + 6 / 2) 6 0"
    using sin35_gt_half by (simp add: generateCurve_flat)
  show ?thesis
    unfolding repeated_key_platforms using rises
    by (simp add: getPlatformYAtX_def build_mesh_def clone_json_def)
qed

subsection \<open>Facts about the player\<close>

lemma processInput_keeps:
  "currentPlatform (processInput inp s) = currentPlatform s"
  "currentWordIndex (processInput inp s) = currentWordIndex s"
  "score (processInput inp s) = score s"
  "perfectSurfs (processInput inp s) = perfectSurfs s"
  "pos_x (processInput inp s) = pos_x s"
  "pos_y (processInput inp s) = pos_y s"
  by (simp_all add: processInput_def Let_def)

lemma applyPhysics_keeps:
  "currentPlatform (applyPhysics dt s) = currentPlatform s"
  "currentWordIndex (applyPhysics dt s) = currentWordIndex s"
  "score (applyPhysics dt s) = score s"
  "perfectSurfs (applyPhysics dt s) = perfectSurfs s"
  "isGrounded (applyPhysics dt s) = isGrounded s"
  "isJumping (applyPhysics dt s) = isJumping s"
  "pos_x (applyPhysics dt s) = pos_x s + vel_x s * dt"
  "pos_y (applyPhysics dt s) = pos_y s + (vel_y s - gravity) * dt"
  "vel_y (applyPhysics dt s) = max (vel_y s - gravity) (- 20)"
  by (simp_all add: applyPhysics_def Let_def)

lemma collisions_not_falling:
  assumes "\<not> vel_y s < 0"
  shows "checkPlatformCollisions level s =
     (case level of
        None \<Rightarrow> (s, [])
      | Some lvl \<Rightarrow>
          (if find_platform lvl (pos_x s) (pos_y s) = None \<and> isGrounded s
           then (s\<lparr>isGrounded := False, currentPlatform := None\<rparr>, [])
           else (s, [])))"
  using assms
  by (auto simp: checkPlatformCollisions_def Let_def split: option.splits prod.splits)

lemma collisions_falling:
  assumes "vel_y s < 0"
  shows "checkPlatformCollisions (Some lvl) s =
     (case find_platform lvl (pos_x s) (pos_y s) of
        None \<Rightarrow> (s\<lparr>isGrounded := False\<rparr>, [])
      | Some (found, platformY) \<Rightarrow>
          (if pos_y s - platformY \<le> 1/2
           then (s\<lparr>isGrounded := True, pos_y := platformY + 1/2, vel_y := 0,
                   isJumping := False,
                   currentWordIndex := (if currentPlatform s \<noteq> Some found then 0
                                        else currentWordIndex s),
                   currentPlatform := Some found\<rparr>,
                 if currentPlatform s \<noteq> Some found
                 then [PlaySentence (ud_sentence found)] else [])
           else (s\<lparr>isGrounded := False\<rparr>, [])))"
  using assms
  by (auto simp: checkPlatformCollisions_def Let_def onPlatformChange_def
      split: option.splits prod.splits)

lemma split_ws_examples:
  "split_ws ''a b c'' = [''a'', ''b'', ''c'']"
  "split_ws ''d e f g'' = [''d'', ''e'', ''f'', ''g'']"
  by (simp_all add: split_ws_def is_space_def)

lemma two_platform_level:
  "two_platform_level = \<lparr>platforms = [platA, platB], totalLength = 18, sentenceCount = 2\<rparr>"
  by (simp add: two_platform_level_def createLevel_def calm_def calm_four_def
      countWords_examples minSentenceLength_def createPlatform_def createCurvedPlatform_def
      toFixed1_def init_cache_def platformWidth_def Let_def platA_def platB_def
      split_ws_examples)

lemma select_step_cases:
  "select_step x y r best p = best
   \<or> (select_step x y r best p
         = Some (p, position_y p + getPlatformYAtX p (x - position_x p))
      \<and> position_y p + getPlatformYAtX p (x - position_x p) \<le> y + r
      \<and> position_x p - ud_length p / 2 \<le> x
      \<and> x \<le> position_x p + ud_length p / 2)"
  by (simp add: select_step_def Let_def)

lemma foldl_select_sound:
  assumes "foldl (select_step x y r) best ps = Some (q, h)"
  shows "best = Some (q, h)
       \<or> (q \<in> set ps \<and> h = position_y q + getPlatformYAtX q (x - position_x q)
          \<and> h \<le> y + r \<and> position_x q - ud_length q / 2 \<le> x
          \<and> x \<le> position_x q + ud_length q / 2)"
  using assms
proof (induction ps arbitrary: best)
  case Nil
  then show ?case by simp
next
  case (Cons p ps)
  from Cons.prems have "foldl (select_step x y r) (select_step x y r best p) ps = Some (q, h)"
    by simp
  from Cons.IH [OF this] consider
      (now) "select_step x y r best p = Some (q, h)"
    | (later) "q \<in> set ps" "h = position_y q + getPlatformYAtX q (x - position_x q)"
        "h \<le> y + r" "position_x q - ud_length q / 2 \<le> x"
        "x \<le> position_x q + ud_length q / 2"
    by blast
  then show ?case
  proof cases
    case now
    with select_step_cases [of x y r best p] show ?thesis
      by (elim disjE conjE; clarsimp)
  next
    case later
    then show ?thesis by simp
  qed
qed

lemma find_platform_sound:
  assumes "find_platform lvl x y = Some (q, h)"
  shows "q \<in> set (platforms lvl)
       \<and> h = position_y q + getPlatformYAtX q (x - position_x q)
       \<and> h \<le> y + 1/2
       \<and> position_x q - ud_length q / 2 \<le> x
       \<and> x \<le> position_x q + ud_length q / 2"
proof -
  from assms have "foldl (select_step x y (1/2)) None (platforms lvl) = Some (q, h)"
    by (simp add: find_platform_def)
  from foldl_select_sound [OF this] show ?thesis
    by simp
qed

lemma wordSurfing_keeps:
  "pos_x (fst (checkWordSurfing s)) = pos_x s"
  "pos_y (fst (checkWordSurfing s)) = pos_y s"
  "vel_y (fst (checkWordSurfing s)) = vel_y s"
  "isGrounded (fst (checkWordSurfing s)) = isGrounded s"
  "isJumping (fst (checkWordSurfing s)) = isJumping s"
  "currentPlatform (fst (checkWordSurfing s)) = currentPlatform s"
  by (simp_all add: checkWordSurfing_def Let_def awardPerfectSurf_def
      split: option.splits prod.splits)

lemma update_fst:
  "fst (update inp dt level s)
     = fst (checkWordSurfing (fst (checkPlatformCollisions level
              (applyPhysics dt (processInput inp s)))))"
  by (simp add: update_def Let_def split: prod.splits)

text \<open>
  C7. Landing resolution applies only while the player moves downward. When
  \<^verbatim>\<open>checkPlatformCollisions\<close> runs with \<open>velocity.y < 0\<close>, has selected a platform, and
  the selected surface height (the platform's height at the player's x) is at most the
  radius 0.5 below the player, it sets \<open>position.y\<close> to the surface height plus 0.5,
  \<open>velocity.y\<close> to 0, \<open>isGrounded\<close> to true and \<open>isJumping\<close> to false. With
  \<open>velocity.y \<ge> 0\<close> it leaves \<open>position.y\<close>, \<open>velocity.y\<close> and \<open>isJumping\<close> alone and
  never sets \<open>isGrounded\<close>. The rest of the tick leaves these four fields as
  \<^verbatim>\<open>checkPlatformCollisions\<close> returned them.
\<close>

theorem landing_resolution:
  "(vel_y s < 0 \<and> find_platform lvl (pos_x s) (pos_y s) = Some (p, platformY)
      \<and> pos_y s - platformY \<le> 1/2
    \<longrightarrow> platformY = position_y p + getPlatformYAtX p (pos_x s - position_x p)
        \<and> pos_y (fst (checkPlatformCollisions (Some lvl) s)) = platformY + 1/2
        \<and> vel_y (fst (checkPlatformCollisions (Some lvl) s)) = 0
        \<and> isGrounded (fst (checkPlatformCollisions (Some lvl) s))
        \<and> \<not> isJumping (fst (checkPlatformCollisions (Some lvl) s)))
   \<and> (\<not> vel_y s < 0
    \<longrightarrow> pos_y (fst (checkPlatformCollisions level s)) = pos_y s
        \<and> vel_y (fst (checkPlatformCollisions level s)) = vel_y s
        \<and> isJumping (fst (checkPlatformCollisions level s)) = isJumping s
        \<and> (isGrounded (fst (checkPlatformCollisions level s)) \<longrightarrow> isGrounded s))
   \<and> pos_y (fst (update inp dt level s))
       = pos_y (fst (checkPlatformCollisions level (applyPhysics dt (processInput inp s))))
   \<and> vel_y (fst (update inp dt level s))
       = vel_y (fst (checkPlatformCollisions level (applyPhysics dt (processInput inp s))))
   \<and> isGrounded (fst (update inp dt level s))
       = isGrounded (fst (checkPlatformCollisions level (applyPhysics dt (processInput inp s))))
   \<and> isJumping (fst (update inp dt level s))
       = isJumping (fst (checkPlatformCollisions level (applyPhysics dt (processInput inp s))))"
proof -
  have land: "platformY = position_y p + getPlatformYAtX p (pos_x s - position_x p)
        \<and> pos_y (fst (checkPlatformCollisions (Some lvl) s)) = platformY + 1/2
        \<and> vel_y (fst (checkPlatformCollisions (Some lvl) s)) = 0
        \<and> isGrounded (fst (checkPlatformCollisions (Some lvl) s))
        \<and> \<not> isJumping (fst (checkPlatformCollisions (Some lvl) s))"
    if "vel_y s < 0" and found: "find_platform lvl (pos_x s) (pos_y s) = Some (p, platformY)"
      and "pos_y s - platformY \<le> 1/2"
    using that find_platform_sound [OF found]
    by (simp add: collisions_falling)
  have rise: "pos_y (fst (checkPlatformCollisions level s)) = pos_y s
        \<and> vel_y (fst (checkPlatformCollisions level s)) = vel_y s
        \<and> isJumping (fst (checkPlatformCollisions level s)) = isJumping s
        \<and> (isGrounded (fst (checkPlatformCollisions level s)) \<longrightarrow> isGrounded s)"
    if "\<not> vel_y s < 0"
    using that by (simp add: collisions_not_falling split: option.splits)
  show ?thesis
    using land rise by (simp add: update_fst wordSurfing_keeps)
qed

lemma surface_A_left: "getPlatformYAtX platA (- 3) = 0"
  by (simp add: getPlatformYAtX_def platA_def build_mesh_def generateCurve_at_0)

lemma find_on_left_edge:
  "find_platform two_platform_level 0 (1/5) = Some (platA, 0)"
proof -
  have a: "select_step 0 (1/5) (1/2) None platA = Some (platA, 0)"
    using surface_A_left by (simp add: select_step_def Let_def platA_def)
  have b: "select_step 0 (1/5) (1/2) (Some (platA, 0)) platB = Some (platA, 0)"
    by (simp add: select_step_def Let_def platB_def)
  show ?thesis
    by (simp add: find_platform_def two_platform_level a b)
qed

theorem landing_resolution_witness:
  "vel_y falling_state < 0
   \<and> find_platform two_platform_level (pos_x falling_state) (pos_y falling_state)
       = Some (platA, 0)
   \<and> pos_y falling_state - 0 \<le> 1/2
   \<and> pos_y (fst (checkPlatformCollisions (Some two_platform_level) falling_state)) = 0 + 1/2
   \<and> vel_y (fst (checkPlatformCollisions (Some two_platform_level) falling_state)) = 0
   \<and> isGrounded (fst (checkPlatformCollisions (Some two_platform_level) falling_state))
   \<and> \<not> isJumping (fst (checkPlatformCollisions (Some two_platform_level) falling_state))
   \<and> \<not> vel_y rising_state < 0
   \<and> pos_y (fst (checkPlatformCollisions (Some two_platform_level) rising_state))
       = pos_y rising_state
   \<and> vel_y (fst (checkPlatformCollisions (Some two_platform_level) rising_state))
       = vel_y rising_state
   \<and> \<not> isGrounded (fst (checkPlatformCollisions (Some two_platform_level) rising_state))"
proof -
  have f1: "vel_y falling_state < 0" and f2: "pos_y falling_state - 0 \<le> 1/2"
    and f0: "pos_x falling_state = 0" "pos_y falling_state = 1/5"
    by (simp_all add: falling_state_def resetState_def)
  have f3: "find_platform two_platform_level (pos_x falling_state) (pos_y falling_state)
       = Some (platA, 0)"
    unfolding f0 by (rule find_on_left_edge)
  have r1: "\<not> vel_y rising_state < 0" and r2: "\<not> isGrounded rising_state"
    by (simp_all add: rising_state_def resetState_def)
  from landing_resolution [of falling_state two_platform_level platA 0 "Some two_platform_level"]
    f1 f2 f3
  have fall: "pos_y (fst (checkPlatformCollisions (Some two_platform_level) falling_state)) = 0 + 1/2
   \<and> vel_y (fst (checkPlatformCollisions (Some two_platform_level) falling_state)) = 0
   \<and> isGrounded (fst (checkPlatformCollisions (Some two_platform_level) falling_state))
   \<and> \<not> isJumping (fst (checkPlatformCollisions (Some two_platform_level) falling_state))"
    by blast
  from landing_resolution [of rising_state two_platform_level platA 0 "Some two_platform_level"]
    r1 r2
  have rise: "pos_y (fst (checkPlatformCollisions (Some two_platform_level) rising_state))
       = pos_y rising_state
   \<and> vel_y (fst (checkPlatformCollisions (Some two_platform_level) rising_state))
       = vel_y rising_state
   \<and> \<not> isGrounded (fst (checkPlatformCollisions (Some two_platform_level) rising_state))"
    by blast
  from f1 f2 f3 r1 fall rise show ?thesis by blast
qed


lemma checkWordSurfing_Some:
  assumes "currentPlatform s = Some p"
  shows "checkWordSurfing s =
    (if currentWordIndex s < wordIndex p (pos_x s)
     then (if wordIndex p (pos_x s) = int (length (ud_words p)) - 1
              \<and> 95/100 \<le> relativePos p (pos_x s)
           then (s\<lparr>score := score s + scorePerWord + scorePerWord * bonusMultiplier,
                   perfectSurfs := perfectSurfs s + 1,
                   currentWordIndex := int (length (ud_words p))\<rparr>,
                 [WordSurfed (wordIndex p (pos_x s)), PerfectSurf])
           else (s\<lparr>score := score s + scorePerWord,
                   currentWordIndex := wordIndex p (pos_x s)\<rparr>,
                 [WordSurfed (wordIndex p (pos_x s))]))
     else (if wordIndex p (pos_x s) = int (length (ud_words p)) - 1
              \<and> 95/100 \<le> relativePos p (pos_x s)
              \<and> currentWordIndex s = int (length (ud_words p)) - 1
           then (s\<lparr>score := score s + scorePerWord * bonusMultiplier,
                   perfectSurfs := perfectSurfs s + 1,
                   currentWordIndex := int (length (ud_words p))\<rparr>,
                 [PerfectSurf])
           else (s, [])))"
  using assms
  by (simp add: checkWordSurfing_def Let_def awardPerfectSurf_def)

lemma wordIndex_le: "wordIndex p x \<le> int (length (ud_words p)) - 1"
  by (simp add: wordIndex_def)

lemma wordSurfing_facts:
  assumes "currentPlatform s = Some p" and "checkWordSurfing s = (s', ev)"
  shows "currentPlatform s' = Some p \<and> pos_x s' = pos_x s
       \<and> currentWordIndex s \<le> currentWordIndex s'
       \<and> surfed ev = (if currentWordIndex s < wordIndex p (pos_x s)
                        then [wordIndex p (pos_x s)] else [])
       \<and> (currentWordIndex s < wordIndex p (pos_x s)
            \<longrightarrow> wordIndex p (pos_x s) \<le> currentWordIndex s'
                \<and> score s + scorePerWord \<le> score s')
       \<and> (PerfectSurf \<in> set ev
            \<longrightarrow> wordIndex p (pos_x s) = int (length (ud_words p)) - 1
                \<and> 95/100 \<le> relativePos p (pos_x s)
                \<and> currentWordIndex s' = int (length (ud_words p)))
       \<and> (int (length (ud_words p)) \<le> currentWordIndex s \<longrightarrow> PerfectSurf \<notin> set ev)"
proof -
  note w = wordIndex_le [of p "pos_x s"]
  consider
      (a) "currentWordIndex s < wordIndex p (pos_x s)"
          "wordIndex p (pos_x s) = int (length (ud_words p)) - 1 \<and> 95/100 \<le> relativePos p (pos_x s)"
    | (b) "currentWordIndex s < wordIndex p (pos_x s)"
          "\<not> (wordIndex p (pos_x s) = int (length (ud_words p)) - 1 \<and> 95/100 \<le> relativePos p (pos_x s))"
    | (c) "\<not> currentWordIndex s < wordIndex p (pos_x s)"
          "wordIndex p (pos_x s) = int (length (ud_words p)) - 1 \<and> 95/100 \<le> relativePos p (pos_x s)
            \<and> currentWordIndex s = int (length (ud_words p)) - 1"
    | (d) "\<not> currentWordIndex s < wordIndex p (pos_x s)"
          "\<not> (wordIndex p (pos_x s) = int (length (ud_words p)) - 1 \<and> 95/100 \<le> relativePos p (pos_x s)
            \<and> currentWordIndex s = int (length (ud_words p)) - 1)"
    by blast
  then show ?thesis
  proof cases
    case a
    have "checkWordSurfing s =
        (s\<lparr>score := score s + scorePerWord + scorePerWord * bonusMultiplier,
           perfectSurfs := perfectSurfs s + 1,
           currentWordIndex := int (length (ud_words p))\<rparr>,
         [WordSurfed (wordIndex p (pos_x s)), PerfectSurf])"
    proof -
      from a have "currentWordIndex s < int (length (ud_words p)) - 1"
        by simp
      with a show ?thesis
        by (simp add: checkWordSurfing_Some [OF assms(1)])
    qed
    with assms(2) have "s' = s\<lparr>score := score s + scorePerWord + scorePerWord * bonusMultiplier,
           perfectSurfs := perfectSurfs s + 1,
           currentWordIndex := int (length (ud_words p))\<rparr>"
      and "ev = [WordSurfed (wordIndex p (pos_x s)), PerfectSurf]"
      by simp_all
    with assms(1) a w show ?thesis
      by (simp add: scorePerWord_def bonusMultiplier_def)
  next
    case b
    have "checkWordSurfing s =
        (s\<lparr>score := score s + scorePerWord,
           currentWordIndex := wordIndex p (pos_x s)\<rparr>,
         [WordSurfed (wordIndex p (pos_x s))])"
      using b by (simp add: checkWordSurfing_Some [OF assms(1)])
    with assms(2) have "s' = s\<lparr>score := score s + scorePerWord,
           currentWordIndex := wordIndex p (pos_x s)\<rparr>"
      and "ev = [WordSurfed (wordIndex p (pos_x s))]"
      by simp_all
    with assms(1) b w show ?thesis
      by simp
  next
    case c
    have "checkWordSurfing s =
        (s\<lparr>score := score s + scorePerWord * bonusMultiplier,
           perfectSurfs := perfectSurfs s + 1,
           currentWordIndex := int (length (ud_words p))\<rparr>,
         [PerfectSurf])"
      using c by (simp add: checkWordSurfing_Some [OF assms(1)])
    with assms(2) have "s' = s\<lparr>score := score s + scorePerWord * bonusMultiplier,
           perfectSurfs := perfectSurfs s + 1,
           currentWordIndex := int (length (ud_words p))\<rparr>"
      and "ev = [PerfectSurf]"
      by simp_all
    with assms(1) c w show ?thesis
      by simp
  next
    case d
    have "checkWordSurfing s = (s, [])"
      using d by (simp add: checkWordSurfing_Some [OF assms(1)])
    with assms(2) have "s' = s" and "ev = []"
      by simp_all
    with assms(1) d w show ?thesis
      by simp
  qed
qed







lemma platA_fields:
  "position_x platA = 3" "position_y platA = 0" "ud_length platA = 6"
  "ud_words platA = [''a'', ''b'', ''c'']"
  by (simp_all add: platA_def)

lemma wordIndex_platA: "wordIndex platA x = min \<lfloor>x / 2\<rfloor> 2"
  by (simp add: wordIndex_def relativePos_def Let_def platA_fields)

lemma relativePos_platA: "relativePos platA x = x / 6"
  by (simp add: relativePos_def Let_def platA_fields)

lemma player_fields:
  "pos_x (player x y vx vy j g cp w sc ps) = x"
  "pos_y (player x y vx vy j g cp w sc ps) = y"
  "vel_x (player x y vx vy j g cp w sc ps) = vx"
  "vel_y (player x y vx vy j g cp w sc ps) = vy"
  "isJumping (player x y vx vy j g cp w sc ps) = j"
  "isGrounded (player x y vx vy j g cp w sc ps) = g"
  "currentPlatform (player x y vx vy j g cp w sc ps) = cp"
  "currentWordIndex (player x y vx vy j g cp w sc ps) = w"
  "score (player x y vx vy j g cp w sc ps) = sc"
  "perfectSurfs (player x y vx vy j g cp w sc ps) = ps"
  by (simp_all add: player_def)


text \<open>A tick that ends with the player neither falling nor grounded: no collision step.\<close>

lemma tick_rising:
  assumes "applyPhysics dt (processInput inp s) = player x y vx vy j False cp w sc ps"
    and "0 \<le> vy"
  shows "update inp dt (Some lvl) s = checkWordSurfing (player x y vx vy j False cp w sc ps)"
proof -
  have "checkPlatformCollisions (Some lvl) (player x y vx vy j False cp w sc ps)
      = (player x y vx vy j False cp w sc ps, [])"
    using assms(2) by (simp add: collisions_not_falling player_fields)
  then show ?thesis
    by (simp add: update_def Let_def assms(1) split: prod.splits)
qed

lemma surfing_first_tick:
  "update jump_right (1/10) (Some two_platform_level) surfing_state
     = (player (12/5) (9/4) 5 (15/2) True False (Some platA) 1 10 0, [WordSurfed 1])"
proof -
  have phys: "applyPhysics (1/10) (processInput jump_right surfing_state)
      = player (12/5) (9/4) 5 (15/2) True False (Some platA) 0 0 0"
    by (simp add: processInput_def applyPhysics_def Let_def jump_right_def surfing_state_def
        player_def playerSpeed_def jumpForce_def gravity_def)
  have ws: "checkWordSurfing (player (12/5) (9/4) 5 (15/2) True False (Some platA) 0 0 0)
      = (player (12/5) (9/4) 5 (15/2) True False (Some platA) 1 10 0, [WordSurfed 1])"
    by (simp add: checkWordSurfing_Some [of _ platA] player_def wordIndex_platA
        relativePos_platA platA_fields scorePerWord_def)
  show ?thesis
    using tick_rising [OF phys] ws by simp
qed




lemma surfed_mem: "i \<in> set (surfed ev) \<longleftrightarrow> WordSurfed i \<in> set ev"
  by (induction ev rule: surfed.induct) auto

lemma jump_tick:
  assumes "in_jump inp" and "isGrounded s" and "\<not> isJumping s"
  shows "update inp dt level s = checkWordSurfing (applyPhysics dt (processInput inp s))"
    and "\<not> isGrounded (applyPhysics dt (processInput inp s))"
proof -
  have g: "\<not> isGrounded (processInput inp s)" and v: "vel_y (processInput inp s) = jumpForce"
    using assms by (simp_all add: processInput_def Let_def)
  from g show ng: "\<not> isGrounded (applyPhysics dt (processInput inp s))"
    by (simp add: applyPhysics_keeps)
  have nf: "\<not> vel_y (applyPhysics dt (processInput inp s)) < 0"
    by (simp add: applyPhysics_keeps v jumpForce_def gravity_def)
  have "checkPlatformCollisions level (applyPhysics dt (processInput inp s))
      = (applyPhysics dt (processInput inp s), [])"
    using ng by (simp add: collisions_not_falling [OF nf] split: option.splits)
  then show "update inp dt level s = checkWordSurfing (applyPhysics dt (processInput inp s))"
    by (simp add: update_def Let_def split: prod.splits)
qed

lemma airborne_scoring:
  assumes "currentPlatform s = Some p"
    and "currentWordIndex s < wordIndex p (pos_x s)"
  shows "score s + scorePerWord \<le> score (fst (checkWordSurfing s))
       \<and> wordIndex p (pos_x s) \<le> currentWordIndex (fst (checkWordSurfing s))
       \<and> WordSurfed (wordIndex p (pos_x s)) \<in> set (snd (checkWordSurfing s))
       \<and> isGrounded (fst (checkWordSurfing s)) = isGrounded s
       \<and> currentPlatform (fst (checkWordSurfing s)) = Some p
       \<and> pos_x (fst (checkWordSurfing s)) = pos_x s"
proof -
  obtain s' ev where ws: "checkWordSurfing s = (s', ev)" by force
  from wordSurfing_facts [OF assms(1) ws] assms(2)
  have "score s + scorePerWord \<le> score s'"
    and "wordIndex p (pos_x s) \<le> currentWordIndex s'"
    and "surfed ev = [wordIndex p (pos_x s)]"
    by simp_all
  moreover from this(3) have "WordSurfed (wordIndex p (pos_x s)) \<in> set ev"
    using surfed_mem [of "wordIndex p (pos_x s)" ev] by simp
  moreover have "isGrounded s' = isGrounded s" "currentPlatform s' = Some p"
    "pos_x s' = pos_x s"
    using wordSurfing_keeps [of s] assms(1) unfolding ws by simp_all
  ultimately show ?thesis
    unfolding ws by simp
qed

lemma platform_change_cases:
  assumes "checkPlatformCollisions level s = (s', ev)"
    and "currentPlatform s' \<noteq> currentPlatform s"
  shows "(\<exists>lvl q h. level = Some lvl \<and> vel_y s < 0
            \<and> find_platform lvl (pos_x s) (pos_y s) = Some (q, h)
            \<and> pos_y s - h \<le> 1/2 \<and> currentPlatform s \<noteq> Some q
            \<and> currentPlatform s' = Some q \<and> isGrounded s')
       \<or> (\<exists>lvl. level = Some lvl \<and> 0 \<le> vel_y s
            \<and> find_platform lvl (pos_x s) (pos_y s) = None
            \<and> isGrounded s \<and> currentPlatform s' = None)"
proof -
  have eq: "s' = fst (checkPlatformCollisions level s)"
    using assms(1) by simp
  show ?thesis
  proof (cases level)
    case None
    then have "s' = s" unfolding eq by (simp add: checkPlatformCollisions_def)
    with assms(2) show ?thesis by simp
  next
    case (Some lvl)
    show ?thesis
    proof (cases "vel_y s < 0")
      case True
      show ?thesis
      proof (cases "find_platform lvl (pos_x s) (pos_y s)")
        case None
        then have "s' = s\<lparr>isGrounded := False\<rparr>"
          unfolding eq Some by (simp add: collisions_falling [OF True])
        with assms(2) show ?thesis by simp
      next
        case found: (Some qh)
        obtain q h where qh: "qh = (q, h)" by force
        show ?thesis
        proof (cases "pos_y s - h \<le> 1/2")
          case False
          then have "s' = s\<lparr>isGrounded := False\<rparr>"
            unfolding eq Some by (simp add: collisions_falling [OF True] found qh)
          with assms(2) show ?thesis by simp
        next
          case near: True
          then have s': "s' = s\<lparr>isGrounded := True, pos_y := h + 1/2, vel_y := 0,
                     isJumping := False,
                     currentWordIndex := (if currentPlatform s \<noteq> Some q then 0
                                          else currentWordIndex s),
                     currentPlatform := Some q\<rparr>"
            unfolding eq Some by (simp add: collisions_falling [OF True] found qh)
          have a: "currentPlatform s' = Some q" and b: "isGrounded s'"
            unfolding s' by simp_all
          from a assms(2) have c: "currentPlatform s \<noteq> Some q" by simp
          have "level = Some lvl \<and> vel_y s < 0
            \<and> find_platform lvl (pos_x s) (pos_y s) = Some (q, h)
            \<and> pos_y s - h \<le> 1/2 \<and> currentPlatform s \<noteq> Some q
            \<and> currentPlatform s' = Some q \<and> isGrounded s'"
            using Some True found qh near a b c by simp
          then show ?thesis by blast
        qed
      qed
    next
      case False
      show ?thesis
      proof (cases "find_platform lvl (pos_x s) (pos_y s) = None \<and> isGrounded s")
        case True
        then have "s' = s\<lparr>isGrounded := False, currentPlatform := None\<rparr>"
          unfolding eq Some by (simp add: collisions_not_falling [OF False])
        then have "currentPlatform s' = None" by simp
        with True False Some have "level = Some lvl \<and> 0 \<le> vel_y s
            \<and> find_platform lvl (pos_x s) (pos_y s) = None
            \<and> isGrounded s \<and> currentPlatform s' = None"
          by simp
        then show ?thesis by blast
      next
        case other: False
        then have "checkPlatformCollisions (Some lvl) s = (s, [])"
          by (simp only: collisions_not_falling [OF False] option.case if_False)
        then have "s' = s"
          unfolding eq Some by simp
        with assms(2) show ?thesis by simp
      qed
    qed
  qed
qed

lemma platB_fields:
  "position_x platB = 12" "position_y platB = - 5" "ud_length platB = 8"
  "ud_words platB = [''d'', ''e'', ''f'', ''g'']"
  by (simp_all add: platB_def)

lemma height_A: "position_y platA + getPlatformYAtX platA (x - position_x platA) = surface_A x"
  by (simp add: getPlatformYAtX_def platA_def build_mesh_def generateCurve_flat surface_A_def
      Let_def)

lemma height_B: "position_y platB + getPlatformYAtX platB (x - position_x platB) = surface_B x"
  by (simp add: getPlatformYAtX_def platB_def build_mesh_def generateCurve_flat surface_B_def
      Let_def)

lemma select_A:
  "select_step x y (1/2) None platA
     = (if 0 \<le> x \<and> x \<le> 6 \<and> surface_A x \<le> y + 1/2 then Some (platA, surface_A x) else None)"
  using height_A [of x] by (simp add: select_step_def Let_def platA_fields)

lemma select_B_None:
  "select_step x y (1/2) None platB
     = (if 8 \<le> x \<and> x \<le> 16 \<and> surface_B x \<le> y + 1/2 then Some (platB, surface_B x) else None)"
  using height_B [of x] by (simp add: select_step_def Let_def platB_fields)

lemma select_B_Some:
  "x \<le> 6 \<Longrightarrow> select_step x y (1/2) (Some (platA, h)) platB = Some (platA, h)"
  by (simp add: select_step_def Let_def platB_fields)

lemma find_two:
  "find_platform two_platform_level x y
     = (if 0 \<le> x \<and> x \<le> 6 \<and> surface_A x \<le> y + 1/2 then Some (platA, surface_A x)
        else if 8 \<le> x \<and> x \<le> 16 \<and> surface_B x \<le> y + 1/2 then Some (platB, surface_B x)
        else None)"
  by (simp add: find_platform_def two_platform_level select_A select_B_None select_B_Some)

text \<open>A falling tick that does not land, and one that lands.\<close>

lemma tick_falling:
  assumes "applyPhysics dt (processInput inp s) = player x y vx vy j g cp w sc ps"
    and "vy < 0"
    and "find_platform lvl x y = None \<or> (\<exists>q h. find_platform lvl x y = Some (q, h) \<and> 1/2 < y - h)"
  shows "update inp dt (Some lvl) s = checkWordSurfing (player x y vx vy j False cp w sc ps)"
proof -
  have f: "vel_y (player x y vx vy j g cp w sc ps) < 0"
    using assms(2) by (simp add: player_fields)
  have "checkPlatformCollisions (Some lvl) (player x y vx vy j g cp w sc ps)
      = (player x y vx vy j False cp w sc ps, [])"
    using assms(3) by (auto simp: collisions_falling [OF f] player_fields) (simp_all add: player_def)
  then show ?thesis
    by (simp add: update_def Let_def assms(1) split: prod.splits)
qed

lemma tick_landing:
  assumes "applyPhysics dt (processInput inp s) = player x y vx vy j g cp w sc ps"
    and "vy < 0"
    and "find_platform lvl x y = Some (q, h)"
    and "y - h \<le> 1/2"
  shows "update inp dt (Some lvl) s
       = (fst (checkWordSurfing (player x (h + 1/2) vx 0 False True (Some q)
                                   (if cp \<noteq> Some q then 0 else w) sc ps)),
          (if cp \<noteq> Some q then [PlaySentence (ud_sentence q)] else [])
          @ snd (checkWordSurfing (player x (h + 1/2) vx 0 False True (Some q)
                                   (if cp \<noteq> Some q then 0 else w) sc ps)))"
proof -
  have f: "vel_y (player x y vx vy j g cp w sc ps) < 0"
    using assms(2) by (simp add: player_fields)
  have "checkPlatformCollisions (Some lvl) (player x y vx vy j g cp w sc ps)
      = (player x (h + 1/2) vx 0 False True (Some q) (if cp \<noteq> Some q then 0 else w) sc ps,
         if cp \<noteq> Some q then [PlaySentence (ud_sentence q)] else [])"
    using assms(3,4) by (simp add: collisions_falling [OF f] player_fields) (simp add: player_def)
  then show ?thesis
    by (simp add: update_def Let_def assms(1) split: prod.splits)
qed

text \<open>
  C9. Word scoring does not need the player on the ground. Whenever the current
  platform is set and the word index under the player's x is above
  \<^verbatim>\<open>currentWordIndex\<close>, \<^verbatim>\<open>checkWordSurfing\<close> awards the per-word score and advances
  the index, whatever \<^verbatim>\<open>isGrounded\<close> is, and leaves \<^verbatim>\<open>isGrounded\<close> as it was. A tick
  that starts a jump ends with \<^verbatim>\<open>isGrounded\<close> false and the current platform
  unchanged, and still scores the word the player has moved over. A tick changes the
  current platform only by landing on another platform, or by finding no qualifying
  platform while the player is grounded and not falling.
\<close>

theorem scoring_does_not_need_ground:
  "(currentPlatform s = Some p \<and> currentWordIndex s < wordIndex p (pos_x s)
     \<longrightarrow> score s + scorePerWord \<le> score (fst (checkWordSurfing s))
         \<and> wordIndex p (pos_x s) \<le> currentWordIndex (fst (checkWordSurfing s))
         \<and> WordSurfed (wordIndex p (pos_x s)) \<in> set (snd (checkWordSurfing s))
         \<and> isGrounded (fst (checkWordSurfing s)) = isGrounded s)
   \<and> (in_jump inp \<and> isGrounded s \<and> \<not> isJumping s \<and> currentPlatform s = Some p
     \<longrightarrow> \<not> isGrounded (fst (update inp dt level s))
         \<and> currentPlatform (fst (update inp dt level s)) = Some p
         \<and> (currentWordIndex s < wordIndex p (pos_x (fst (update inp dt level s)))
              \<longrightarrow> score s + scorePerWord \<le> score (fst (update inp dt level s))
                  \<and> WordSurfed (wordIndex p (pos_x (fst (update inp dt level s))))
                       \<in> set (snd (update inp dt level s))))
   \<and> (currentPlatform (fst (update inp dt level s)) \<noteq> currentPlatform s
     \<longrightarrow> (\<exists>lvl q h. level = Some lvl
              \<and> vel_y (applyPhysics dt (processInput inp s)) < 0
              \<and> find_platform lvl (pos_x (applyPhysics dt (processInput inp s)))
                    (pos_y (applyPhysics dt (processInput inp s))) = Some (q, h)
              \<and> pos_y (applyPhysics dt (processInput inp s)) - h \<le> 1/2
              \<and> currentPlatform s \<noteq> Some q
              \<and> currentPlatform (fst (update inp dt level s)) = Some q
              \<and> isGrounded (fst (update inp dt level s)))
         \<or> (\<exists>lvl. level = Some lvl
              \<and> 0 \<le> vel_y (applyPhysics dt (processInput inp s))
              \<and> find_platform lvl (pos_x (applyPhysics dt (processInput inp s)))
                    (pos_y (applyPhysics dt (processInput inp s))) = None
              \<and> isGrounded (applyPhysics dt (processInput inp s))
              \<and> currentPlatform (fst (update inp dt level s)) = None))"
proof -
  have a: "score s + scorePerWord \<le> score (fst (checkWordSurfing s))
         \<and> wordIndex p (pos_x s) \<le> currentWordIndex (fst (checkWordSurfing s))
         \<and> WordSurfed (wordIndex p (pos_x s)) \<in> set (snd (checkWordSurfing s))
         \<and> isGrounded (fst (checkWordSurfing s)) = isGrounded s"
    if "currentPlatform s = Some p" "currentWordIndex s < wordIndex p (pos_x s)"
    using airborne_scoring [OF that] by blast
  have b: "\<not> isGrounded (fst (update inp dt level s))
         \<and> currentPlatform (fst (update inp dt level s)) = Some p
         \<and> (currentWordIndex s < wordIndex p (pos_x (fst (update inp dt level s)))
              \<longrightarrow> score s + scorePerWord \<le> score (fst (update inp dt level s))
                  \<and> WordSurfed (wordIndex p (pos_x (fst (update inp dt level s))))
                       \<in> set (snd (update inp dt level s)))"
    if j: "in_jump inp" "isGrounded s" "\<not> isJumping s" and cp: "currentPlatform s = Some p"
  proof -
    define s2 where "s2 = applyPhysics dt (processInput inp s)"
    have up: "update inp dt level s = checkWordSurfing s2"
      and ng: "\<not> isGrounded s2"
      unfolding s2_def using jump_tick [OF j] by blast+
    have cp2: "currentPlatform s2 = Some p" and w2: "currentWordIndex s2 = currentWordIndex s"
      and sc2: "score s2 = score s"
      unfolding s2_def using cp by (simp_all add: applyPhysics_keeps processInput_keeps)
    have k: "isGrounded (fst (checkWordSurfing s2)) = isGrounded s2"
      "currentPlatform (fst (checkWordSurfing s2)) = Some p"
      "pos_x (fst (checkWordSurfing s2)) = pos_x s2"
      using wordSurfing_keeps [of s2] cp2 by simp_all
    have "score s + scorePerWord \<le> score (fst (checkWordSurfing s2))
          \<and> WordSurfed (wordIndex p (pos_x s2)) \<in> set (snd (checkWordSurfing s2))"
      if "currentWordIndex s < wordIndex p (pos_x s2)"
      using airborne_scoring [OF cp2] that w2 sc2 by simp
    with k ng show ?thesis
      unfolding up by simp
  qed
  have c: "(\<exists>lvl q h. level = Some lvl
              \<and> vel_y (applyPhysics dt (processInput inp s)) < 0
              \<and> find_platform lvl (pos_x (applyPhysics dt (processInput inp s)))
                    (pos_y (applyPhysics dt (processInput inp s))) = Some (q, h)
              \<and> pos_y (applyPhysics dt (processInput inp s)) - h \<le> 1/2
              \<and> currentPlatform s \<noteq> Some q
              \<and> currentPlatform (fst (update inp dt level s)) = Some q
              \<and> isGrounded (fst (update inp dt level s)))
         \<or> (\<exists>lvl. level = Some lvl
              \<and> 0 \<le> vel_y (applyPhysics dt (processInput inp s))
              \<and> find_platform lvl (pos_x (applyPhysics dt (processInput inp s)))
                    (pos_y (applyPhysics dt (processInput inp s))) = None
              \<and> isGrounded (applyPhysics dt (processInput inp s))
              \<and> currentPlatform (fst (update inp dt level s)) = None)"
    if ch: "currentPlatform (fst (update inp dt level s)) \<noteq> currentPlatform s"
  proof -
    define s2 where "s2 = applyPhysics dt (processInput inp s)"
    obtain s3 ev3 where col: "checkPlatformCollisions level s2 = (s3, ev3)" by force
    have f: "fst (update inp dt level s) = fst (checkWordSurfing s3)"
      using col by (simp add: update_fst s2_def)
    have same: "currentPlatform (fst (update inp dt level s)) = currentPlatform s3"
      "isGrounded (fst (update inp dt level s)) = isGrounded s3"
      unfolding f by (simp_all add: wordSurfing_keeps)
    have cp2: "currentPlatform s2 = currentPlatform s"
      unfolding s2_def by (simp add: applyPhysics_keeps processInput_keeps)
    from ch have "currentPlatform s3 \<noteq> currentPlatform s2"
      unfolding same cp2 .
    from platform_change_cases [OF col this] show ?thesis
      unfolding same cp2 s2_def [symmetric] .
  qed
  from a b c show ?thesis by blast
qed

lemma falling_state_player: "falling_state = player 0 (1/5) 0 (- 1) True False None 0 0 0"
  by (simp add: falling_state_def resetState_def player_def)

lemma landing_tick:
  "update no_input (1/10) (Some two_platform_level) falling_state
     = (player 0 (1/2) 0 0 False True (Some platA) 0 0 0, [PlaySentence calm])"
proof -
  have phys: "applyPhysics (1/10) (processInput no_input falling_state)
      = player 0 (1/20) 0 (- 3/2) True False None 0 0 0"
    by (simp add: processInput_def applyPhysics_def Let_def no_input_def falling_state_player
        player_def gravity_def)
  have found: "find_platform two_platform_level 0 (1/20) = Some (platA, 0)"
    by (simp add: find_two surface_A_def)
  have ws: "checkWordSurfing (player 0 (1/2) 0 0 False True (Some platA) 0 0 0)
      = (player 0 (1/2) 0 0 False True (Some platA) 0 0 0, [])"
    by (simp add: checkWordSurfing_Some [of _ platA] player_def wordIndex_platA
        relativePos_platA platA_fields)
  have sent: "ud_sentence platA = calm"
    by (simp add: platA_def)
  from tick_landing [OF phys _ found] show ?thesis
    by (simp add: ws sent)
qed

theorem scoring_does_not_need_ground_witness:
  "currentPlatform airborne_state = Some platA
   \<and> currentWordIndex airborne_state < wordIndex platA (pos_x airborne_state)
   \<and> \<not> isGrounded airborne_state
   \<and> score airborne_state + scorePerWord \<le> score (fst (checkWordSurfing airborne_state))
   \<and> WordSurfed (wordIndex platA (pos_x airborne_state))
        \<in> set (snd (checkWordSurfing airborne_state))
   \<and> \<not> isGrounded (fst (checkWordSurfing airborne_state))
   \<and> in_jump jump_right \<and> isGrounded surfing_state \<and> \<not> isJumping surfing_state
   \<and> currentPlatform surfing_state = Some platA
   \<and> currentWordIndex surfing_state
        < wordIndex platA (pos_x (fst (update jump_right (1/10) (Some two_platform_level)
                                          surfing_state)))
   \<and> \<not> isGrounded (fst (update jump_right (1/10) (Some two_platform_level) surfing_state))
   \<and> score surfing_state + scorePerWord
        \<le> score (fst (update jump_right (1/10) (Some two_platform_level) surfing_state))
   \<and> currentPlatform (fst (update no_input (1/10) (Some two_platform_level) falling_state))
        \<noteq> currentPlatform falling_state
   \<and> currentPlatform (fst (update no_input (1/10) (Some two_platform_level) falling_state))
        = Some platA
   \<and> isGrounded (fst (update no_input (1/10) (Some two_platform_level) falling_state))"
proof -
  note main = scoring_does_not_need_ground
  have a1: "currentPlatform airborne_state = Some platA"
    and a2: "currentWordIndex airborne_state < wordIndex platA (pos_x airborne_state)"
    and a3: "\<not> isGrounded airborne_state"
    by (simp_all add: airborne_state_def player_fields wordIndex_platA)
  from main [of airborne_state platA] a1 a2 a3
  have a: "score airborne_state + scorePerWord \<le> score (fst (checkWordSurfing airborne_state))
   \<and> WordSurfed (wordIndex platA (pos_x airborne_state))
        \<in> set (snd (checkWordSurfing airborne_state))
   \<and> \<not> isGrounded (fst (checkWordSurfing airborne_state))"
    by simp
  have b1: "in_jump jump_right" "isGrounded surfing_state" "\<not> isJumping surfing_state"
    "currentPlatform surfing_state = Some platA"
    by (simp_all add: jump_right_def surfing_state_def player_fields)
  have b2: "currentWordIndex surfing_state
        < wordIndex platA (pos_x (fst (update jump_right (1/10) (Some two_platform_level)
                                          surfing_state)))"
    unfolding surfing_first_tick
    by (simp add: surfing_state_def player_fields wordIndex_platA)
  from main [of surfing_state platA jump_right "1/10" "Some two_platform_level"] b1 b2
  have b: "\<not> isGrounded (fst (update jump_right (1/10) (Some two_platform_level) surfing_state))
   \<and> score surfing_state + scorePerWord
        \<le> score (fst (update jump_right (1/10) (Some two_platform_level) surfing_state))"
    by simp
  have c1: "currentPlatform (fst (update no_input (1/10) (Some two_platform_level) falling_state))
        \<noteq> currentPlatform falling_state"
    and c2: "currentPlatform (fst (update no_input (1/10) (Some two_platform_level)
                falling_state)) = Some platA"
    unfolding landing_tick
    by (simp_all add: falling_state_player player_fields)
  from main [of falling_state _ no_input "1/10" "Some two_platform_level"] c1 c2
  have c: "isGrounded (fst (update no_input (1/10) (Some two_platform_level) falling_state))"
    by auto
  from a1 a2 a3 a b1 b2 b c1 c2 c show ?thesis
    by blast
qed

subsection \<open>Facts about the perfect-surf bonus\<close>













subsection \<open>A game in which the first platform is surfed twice\<close>




















































































































































































































end
